theory Spec2Isabelle
  imports Complex_Main "HOL-Library.AList"
begin

section \<open>The low-spec decision dialog (lowspec-dialog.py)\<close>

text \<open>
  \<open>LowspecApp\<close> keeps one field, \<open>exit_code\<close>, set to 2 by \<open>__init__\<close>. The toolkit's
  main loop is modelled by the events it delivers to the application: the dialog's
  \<open>response\<close> signal with its response id, or the loop ending because the window went
  away with no response delivered. \<open>quit\<close> ends the loop, so \<open>run\<close> looks at the events
  in order and stops at the first one that ends it; an empty list is a loop that is
  still running, and \<open>main\<close> has no exit status then.
\<close>

record LowspecApp =
  exit_code :: int
  running :: bool

datatype dialog_event = Response string | WindowDestroyed

definition LowspecApp_init :: LowspecApp where
  "LowspecApp_init = \<lparr>exit_code = 2, running = True\<rparr>"

definition quit :: "LowspecApp \<Rightarrow> LowspecApp" where
  "quit app = app\<lparr>running := False\<rparr>"

definition on_response :: "LowspecApp \<Rightarrow> string \<Rightarrow> LowspecApp" where
  "on_response app response =
     quit (if response = ''ignore'' then app\<lparr>exit_code := 0\<rparr>
           else if response = ''apply'' then app\<lparr>exit_code := 1\<rparr>
           else app)"

fun run :: "LowspecApp \<Rightarrow> dialog_event list \<Rightarrow> LowspecApp" where
  "run app [] = app"
| "run app (Response r # evs) =
     (if running app then run (on_response app r) evs else app)"
| "run app (WindowDestroyed # evs) =
     (if running app then quit app else app)"

definition main :: "dialog_event list \<Rightarrow> int option" where
  "main evs =
     (let app = run LowspecApp_init evs
      in if running app then None else Some (exit_code app))"


section \<open>Python values used by praya-preferences.py\<close>

subsection \<open>Floats\<close>

text \<open>
  The posture score is an IEEE double. The program only compares it and prints it, so a
  double is modelled by its exact value: every finite double is a rational, and the
  four values that are not (negative zero, the infinities, not-a-number) are
  constructors of their own. \<open>Finite 0\<close> is positive zero.
\<close>

datatype pyfloat = Finite rat | NegZero | PosInf | NegInf | NaN

fun float_value :: "pyfloat \<Rightarrow> rat" where
  "float_value (Finite q) = q"
| "float_value _ = 0"

text \<open>The comparison \<open>a < b\<close> of two doubles: false whenever either is not-a-number.\<close>

fun float_lt :: "pyfloat \<Rightarrow> pyfloat \<Rightarrow> bool" where
  "float_lt NaN b = False"
| "float_lt a NaN = False"
| "float_lt a NegInf = False"
| "float_lt NegInf b = True"
| "float_lt PosInf b = False"
| "float_lt a PosInf = True"
| "float_lt a b = (float_value a < float_value b)"

text \<open>
  The builtins \<open>min(a, b)\<close> and \<open>max(a, b)\<close> keep the first argument unless the second
  is strictly smaller (larger).
\<close>

definition py_min :: "pyfloat \<Rightarrow> pyfloat \<Rightarrow> pyfloat" where
  "py_min a b = (if float_lt b a then b else a)"

definition py_max :: "pyfloat \<Rightarrow> pyfloat \<Rightarrow> pyfloat" where
  "py_max a b = (if float_lt a b then b else a)"

text \<open>
  The format \<open>{score:.2f}\<close>: the exact value rounded to two decimals, ties to even,
  with a minus sign for every value below zero and for negative zero.
\<close>

definition digit_char :: "nat \<Rightarrow> char" where
  "digit_char d = ''0123456789'' ! (d mod 10)"

fun str_nat :: "nat \<Rightarrow> string" where
  "str_nat n = (if n < 10 then [digit_char n] else str_nat (n div 10) @ [digit_char n])"

definition round_half_even :: "rat \<Rightarrow> nat" where
  "round_half_even x =
     (let n = nat \<lfloor>x\<rfloor>; frac = x - of_nat n
      in if 1 / 2 < frac \<or> (frac = 1 / 2 \<and> odd n) then n + 1 else n)"

definition format_hundredths :: "nat \<Rightarrow> string" where
  "format_hundredths h =
     str_nat (h div 100) @ ''.'' @ [digit_char (h div 10), digit_char h]"

fun format_2f :: "pyfloat \<Rightarrow> string" where
  "format_2f NaN = ''nan''"
| "format_2f PosInf = ''inf''"
| "format_2f NegInf = ''-inf''"
| "format_2f NegZero = ''-0.00''"
| "format_2f (Finite q) =
     (if q < 0 then ''-'' else '''') @ format_hundredths (round_half_even (\<bar>q\<bar> * 100))"

subsection \<open>Strings\<close>

text \<open>
  A \<open>char\<close> stands for a code point below 256. \<open>str.strip()\<close> removes the leading and
  trailing characters for which \<open>str.isspace\<close> holds; below 256 these are the twelve
  listed here.
\<close>

definition isspace :: "char \<Rightarrow> bool" where
  "isspace c \<longleftrightarrow> c \<in> set [CHR 0x09, CHR 0x0A, CHR 0x0B, CHR 0x0C, CHR 0x0D,
                         CHR 0x1C, CHR 0x1D, CHR 0x1E, CHR 0x1F, CHR 0x20,
                         CHR 0x85, CHR 0xA0]"

definition strip :: "string \<Rightarrow> string" where
  "strip s = rev (dropWhile isspace (rev (dropWhile isspace s)))"

subsection \<open>JSON values and dictionaries\<close>

datatype jvalue =
    JNull
  | JBool bool
  | JInt int
  | JFloat pyfloat
  | JStr string
  | JArr "jvalue list"
  | JObj "(string \<times> jvalue) list"

text \<open>
  A \<open>dict\<close> with string keys is the list of its items in insertion order. Assigning to
  a key that is present replaces its value in place, assigning to a new key appends an
  item; \<open>update\<close> assigns the items of its argument one after the other.
\<close>

type_synonym dict = "(string \<times> jvalue) list"

definition dict_setitem :: "string \<Rightarrow> jvalue \<Rightarrow> dict \<Rightarrow> dict" where
  "dict_setitem k v d = AList.update k v d"

definition dict_update :: "dict \<Rightarrow> dict \<Rightarrow> dict" where
  "dict_update d other = fold (\<lambda>(k, v). dict_setitem k v) other d"

definition dict_get :: "dict \<Rightarrow> string \<Rightarrow> jvalue \<Rightarrow> jvalue" where
  "dict_get d k dflt = (case map_of d k of Some v \<Rightarrow> v | None \<Rightarrow> dflt)"

definition keys :: "dict \<Rightarrow> string list" where
  "keys d = map fst d"



section \<open>Constants of praya-preferences.py\<close>

definition PROVIDERS :: "(string \<times> string \<times> string list) list" where
  "PROVIDERS =
     [(''anthropic'', ''Anthropic'',
         [''claude-sonnet-4-20250514'', ''claude-opus-4-20250514'',
          ''claude-3-5-haiku-20241022'']),
      (''openai'', ''ChatGPT'', [''gpt-4o'', ''gpt-4o-mini'', ''gpt-4-turbo''])]"

definition SERVICES_CONFIG_PATH :: string where
  "SERVICES_CONFIG_PATH = ''services.json''"

definition CHATBOT_CONFIG_PATH :: string where
  "CHATBOT_CONFIG_PATH = ''chatbot.json''"

definition DEFAULT_SERVICES_CONFIG :: dict where
  "DEFAULT_SERVICES_CONFIG =
     [(''ai'', JBool False),
      (''posture'', JBool False),
      (''appMenuLayout'', JStr ''grid''),
      (''mainMenuHoverActivate'', JBool False),
      (''taskbarHoverActivate'', JBool False),
      (''showDesktopHoverActivate'', JBool False),
      (''calendarHoverActivate'', JBool False),
      (''quickAccessHoverActivate'', JBool False),
      (''floatingPanel'', JBool True),
      (''panelPosition'', JStr ''top'')]"

definition DEFAULT_CHATBOT_CONFIG :: dict where
  "DEFAULT_CHATBOT_CONFIG =
     [(''provider'', JStr ''anthropic''),
      (''model'', JStr ''claude-sonnet-4-20250514''),
      (''apiKey'', JStr '''')]"

definition tiling_id :: string where
  "tiling_id = ''tilingshell@ferrarodomenico.com''"

definition GTK_INVALID_LIST_POSITION :: int where
  "GTK_INVALID_LIST_POSITION = 4294967295"


section \<open>Loading a configuration file\<close>

text \<open>
  What \<open>open(path)\<close> followed by \<open>json.load\<close> does is the environment's: it raises, or
  it returns the parsed top-level value. Of the top-level values, objects and scalars
  (\<open>null\<close>, a boolean, a number) are modelled; a top-level array or string is not.
\<close>

datatype py_exception =
    FileNotFoundError
  | JSONDecodeError
  | PermissionError
  | IsADirectoryError
  | UnicodeDecodeError
  | TypeError
  | KeyError

datatype json_top = TopObject dict | TopScalar

datatype read_outcome = Raises py_exception | Loads json_top

text \<open>
  Dictionaries are objects: \<open>defaults\<close> is passed by reference and \<open>dict(defaults)\<close>
  allocates a new object, which \<open>update\<close> then changes in place. The heap is the list
  of the dictionaries allocated so far, and a reference is an index into it.
\<close>

type_synonym ref = nat
type_synonym heap = "dict list"

definition dict_new :: "heap \<Rightarrow> ref \<Rightarrow> ref \<times> heap" where
  "dict_new h src = (length h, h @ [h ! src])"

definition update_in_place :: "heap \<Rightarrow> ref \<Rightarrow> dict \<Rightarrow> heap" where
  "update_in_place h r other = h[r := dict_update (h ! r) other]"

definition load_json ::
  "(string \<Rightarrow> read_outcome) \<Rightarrow> string \<Rightarrow> ref \<Rightarrow> heap \<Rightarrow> (py_exception + ref) \<times> heap" where
  "load_json fs path defaults h =
     (case fs path of
        Loads data \<Rightarrow>
          (let (merged, h1) = dict_new h defaults
           in case data of
                TopObject other \<Rightarrow> (Inr merged, update_in_place h1 merged other)
              | TopScalar \<Rightarrow> (Inl TypeError, h1))
      | Raises e \<Rightarrow>
          (if e = FileNotFoundError \<or> e = JSONDecodeError
           then (let (fresh, h1) = dict_new h defaults in (Inr fresh, h1))
           else (Inl e, h)))"

text \<open>
  The value the two lines \<open>merged = dict(defaults); merged.update(data)\<close> compute, as a
  function of the two dictionaries' contents.
\<close>

definition merge :: "dict \<Rightarrow> dict \<Rightarrow> dict" where
  "merge defaults data = dict_update defaults data"


section \<open>The preferences window\<close>

text \<open>
  The fields of \<open>PrayaPreferencesWindow\<close> that the handlers read or write, the state of
  the widgets they touch, and the part of the desktop they act on. Handlers are
  modelled as they run once the window is built, with every signal connected.

  \<^item> \<open>saved\<close> is the log of \<open>_save_json\<close>: each call puts the path and the dictionary
    written at the front. Writing is taken to succeed.
  \<^item> \<open>dbus\<close> says whether \<open>self._dbus\<close> is a connection (it is \<open>None\<close> otherwise).
  \<^item> \<open>sources\<close> holds the ids of the timers attached to the main loop.
\<close>

record window =
  services :: dict
  chatbot :: dict
  dbus :: bool
  posture_poll_id :: "nat option"
  service_running :: bool
  service_label :: string
  posture_status_label :: string
  posture_level_bar :: pyfloat
  layout_row :: int
  provider_row :: int
  model_row_model :: "string list"
  model_row :: int
  saved :: "(string \<times> dict) list"
  enable_animations :: bool
  enabled_extensions :: "string list"
  disabled_extensions :: "string list"
  sources :: "nat list"

subsection \<open>Persistence\<close>

definition save_json :: "string \<Rightarrow> dict \<Rightarrow> window \<Rightarrow> window" where
  "save_json path data w = w\<lparr>saved := (path, data) # saved w\<rparr>"

definition save_services :: "window \<Rightarrow> window" where
  "save_services w = save_json SERVICES_CONFIG_PATH (services w) w"

definition save_chatbot :: "window \<Rightarrow> window" where
  "save_chatbot w = save_json CHATBOT_CONFIG_PATH (chatbot w) w"

subsection \<open>Provider and model\<close>

definition current_provider_key :: "window \<Rightarrow> string" where
  "current_provider_key w =
     (let ks = map fst PROVIDERS; idx = provider_row w
      in if 0 \<le> idx \<and> idx < int (length ks) then ks ! nat idx else ''anthropic'')"

text \<open>\<open>PROVIDERS[pkey]['models']\<close>; a missing key raises \<open>KeyError\<close>.\<close>

definition provider_models :: "string \<Rightarrow> py_exception + string list" where
  "provider_models pkey =
     (case map_of PROVIDERS pkey of
        None \<Rightarrow> Inl KeyError
      | Some p \<Rightarrow> Inr (snd p))"

definition on_model_changed :: "window \<Rightarrow> py_exception + window" where
  "on_model_changed w =
     (case provider_models (current_provider_key w) of
        Inl e \<Rightarrow> Inl e
      | Inr models \<Rightarrow>
          (let idx = model_row w
           in if 0 \<le> idx \<and> idx < int (length models)
              then Inr (save_chatbot
                     (w\<lparr>chatbot := dict_setitem ''model'' (JStr (models ! nat idx)) (chatbot w)\<rparr>))
              else Inr w))"






subsection \<open>Low-spec mode\<close>

definition on_layout_changed :: "window \<Rightarrow> window" where
  "on_layout_changed w =
     (let val = (if layout_row w = 0 then ''grid'' else ''list'')
      in save_services (w\<lparr>services := dict_setitem ''appMenuLayout'' (JStr val) (services w)\<rparr>))"

definition layout_row_set_selected :: "int \<Rightarrow> window \<Rightarrow> window" where
  "layout_row_set_selected pos w =
     (if layout_row w = pos then w else on_layout_changed (w\<lparr>layout_row := pos\<rparr>))"

text \<open>
  Each of the two \<open>try\<close> blocks of \<open>_on_lowspec_changed\<close> swallows every exception. The
  first block makes one write. The second opens the settings, reads two lists and
  writes two; \<open>settings_fault\<close> names the call that raises, if any, and what was written
  before it stays written.
\<close>

datatype settings_fault =
    NoFault
  | FaultOpen
  | FaultRead
  | FaultWriteEnabled
  | FaultWriteDisabled

definition toggle_animations :: "bool \<Rightarrow> bool \<Rightarrow> window \<Rightarrow> window" where
  "toggle_animations raises enabled w =
     (if raises then w else w\<lparr>enable_animations := \<not> enabled\<rparr>)"

definition toggle_tilingshell :: "settings_fault \<Rightarrow> bool \<Rightarrow> window \<Rightarrow> window" where
  "toggle_tilingshell fault enabled w =
     (if fault = FaultOpen \<or> fault = FaultRead then w
      else
        let enabled_exts = enabled_extensions w;
            disabled_exts = disabled_extensions w;
            enabled_exts' =
              (if enabled then filter (\<lambda>x. x \<noteq> tiling_id) enabled_exts
               else if tiling_id \<in> set enabled_exts then enabled_exts
               else enabled_exts @ [tiling_id]);
            disabled_exts' =
              (if enabled
               then (if tiling_id \<in> set disabled_exts then disabled_exts
                     else disabled_exts @ [tiling_id])
               else filter (\<lambda>x. x \<noteq> tiling_id) disabled_exts)
        in if fault = FaultWriteEnabled then w
           else if fault = FaultWriteDisabled then w\<lparr>enabled_extensions := enabled_exts'\<rparr>
           else w\<lparr>enabled_extensions := enabled_exts', disabled_extensions := disabled_exts'\<rparr>)"

definition on_lowspec_changed :: "bool \<Rightarrow> settings_fault \<Rightarrow> bool \<Rightarrow> window \<Rightarrow> window" where
  "on_lowspec_changed anim_raises fault enabled w =
     (let w1 = w\<lparr>services := dict_setitem ''lowspecEnabled'' (JBool enabled) (services w)\<rparr>;
          w2 = toggle_animations anim_raises enabled w1;
          w3 = toggle_tilingshell fault enabled w2;
          new_layout = (if enabled then ''list'' else ''grid'');
          w4 = w3\<lparr>services := dict_setitem ''appMenuLayout'' (JStr new_layout) (services w3)\<rparr>;
          w5 = layout_row_set_selected (if new_layout = ''grid'' then 0 else 1) w4
      in save_services w5)"

text \<open>
  A run of the low-spec switch: each step is one change of the switch, with the state it
  changed to and the faults of the two settings blocks during that call.
\<close>

fun lowspec_toggles :: "(bool \<times> settings_fault \<times> bool) list \<Rightarrow> window \<Rightarrow> window" where
  "lowspec_toggles [] w = w"
| "lowspec_toggles ((anim_raises, fault, enabled) # ts) w =
     lowspec_toggles ts (on_lowspec_changed anim_raises fault enabled w)"

subsection \<open>Service status\<close>

text \<open>
  \<open>subprocess.run\<close> raises (the command is missing, or the five seconds pass) or
  completes with the text of its standard output. \<open>tr\<close> is the translation function
  \<open>_\<close>, which is the identity when no catalogue is found.
\<close>

datatype run_outcome = RunRaises | Completed string

definition check_service_status :: "(string \<Rightarrow> string) \<Rightarrow> run_outcome \<Rightarrow> window \<Rightarrow> window" where
  "check_service_status tr res w =
     (let w0 = w\<lparr>service_label := tr ''Checking...''\<rparr>
      in case res of
           RunRaises \<Rightarrow>
             w0\<lparr>service_label := tr ''Error checking status'', service_running := False\<rparr>
         | Completed stdout \<Rightarrow>
             (let status = strip stdout
              in if status = ''active''
                 then w0\<lparr>service_label := tr ''Running'', service_running := True\<rparr>
                 else if status = ''inactive''
                 then w0\<lparr>service_label := tr ''Stopped'', service_running := False\<rparr>
                 else w0\<lparr>service_label := (if status \<noteq> [] then status else tr ''Unknown''),
                         service_running := False\<rparr>))"

subsection \<open>Posture polling\<close>

text \<open>
  One \<open>GetUserPosture\<close> call either raises (no such service, an error reply, the
  timeout, a reply of another shape) or returns a status and a score.
\<close>

datatype call_outcome = CallRaises | Reply string pyfloat

definition SOURCE_CONTINUE :: bool where
  "SOURCE_CONTINUE = True"

definition poll_posture :: "(string \<Rightarrow> string) \<Rightarrow> call_outcome \<Rightarrow> window \<Rightarrow> window \<times> bool" where
  "poll_posture tr res w =
     (if \<not> dbus w
      then (w\<lparr>posture_status_label := tr ''D-Bus not available''\<rparr>, SOURCE_CONTINUE)
      else
        (case res of
           Reply status score \<Rightarrow>
             (w\<lparr>posture_status_label := status @ '' ('' @ format_2f score @ '')'',
                posture_level_bar := py_max (Finite 0) (py_min (Finite 1) score)\<rparr>,
              SOURCE_CONTINUE)
         | CallRaises \<Rightarrow>
             (w\<lparr>posture_status_label := tr ''Service unavailable'',
                posture_level_bar := Finite 0\<rparr>,
              SOURCE_CONTINUE)))"

text \<open>
  \<open>GLib.timeout_add\<close> attaches a timer and returns its id, a positive number the main
  loop chooses. The loop calls the callback of an attached timer at every period and
  detaches the timer when the callback does not return \<open>SOURCE_CONTINUE\<close>.
\<close>

definition start_posture_polling :: "nat \<Rightarrow> window \<Rightarrow> window" where
  "start_posture_polling new_id w =
     w\<lparr>posture_poll_id := Some new_id, sources := new_id # sources w\<rparr>"

definition timer_fires :: "(string \<Rightarrow> string) \<Rightarrow> nat \<Rightarrow> call_outcome \<Rightarrow> window \<Rightarrow> window" where
  "timer_fires tr sid res w =
     (if sid \<in> set (sources w)
      then (let (w1, again) = poll_posture tr res w
            in if again then w1 else w1\<lparr>sources := removeAll sid (sources w1)\<rparr>)
      else w)"

definition on_close :: "window \<Rightarrow> window" where
  "on_close w =
     (case posture_poll_id w of
        None \<Rightarrow> w
      | Some sid \<Rightarrow>
          (if sid \<noteq> 0
           then w\<lparr>sources := removeAll sid (sources w), posture_poll_id := None\<rparr>
           else w))"

fun ticks :: "(string \<Rightarrow> string) \<Rightarrow> nat \<Rightarrow> call_outcome list \<Rightarrow> window \<Rightarrow> window" where
  "ticks tr sid [] w = w"
| "ticks tr sid (res # rest) w = ticks tr sid rest (timer_fires tr sid res w)"


subsection \<open>A window to compute with\<close>

text \<open>
  The window as \<open>__init__\<close> leaves it when neither configuration file exists and the
  session bus is there: both dictionaries are the defaults, every row shows the
  default's entry, the labels are the ones the pages are built with. The desktop has
  animations on and the tiling extension enabled. The translation function of the
  examples is the identity, as for \<open>NullTranslations\<close>.
\<close>

definition fresh_window :: window where
  "fresh_window =
     \<lparr>services = DEFAULT_SERVICES_CONFIG,
      chatbot = DEFAULT_CHATBOT_CONFIG,
      dbus = True,
      posture_poll_id = None,
      service_running = False,
      service_label = ''Checking...'',
      posture_status_label = ''Waiting for data...'',
      posture_level_bar = Finite 0,
      layout_row = 0,
      provider_row = 0,
      model_row_model = [''claude-sonnet-4-20250514'', ''claude-opus-4-20250514'',
                         ''claude-3-5-haiku-20241022''],
      model_row = 0,
      saved = [],
      enable_animations = True,
      enabled_extensions = [tiling_id],
      disabled_extensions = [],
      sources = []\<rparr>"


section \<open>Properties of the dialog\<close>

lemma run_stopped: "\<not> running app \<Longrightarrow> run app evs = app"
  by (induction app evs rule: run.induct) auto

text \<open>
  C1. The dialog process exits with 0 when the response is \<open>ignore\<close>, with 1 when it is
  \<open>apply\<close>, and with 2 when the window is destroyed before any response was delivered;
  whatever the loop would have delivered afterwards does not matter.
\<close>

theorem lowspec_exit_codes:
  "main (Response ''ignore'' # evs) = Some 0
   \<and> main (Response ''apply'' # evs) = Some 1
   \<and> main (WindowDestroyed # evs) = Some 2"
  by (simp add: main_def LowspecApp_init_def on_response_def quit_def run_stopped)

section \<open>Properties of the configuration store\<close>

subsection \<open>Dictionary updates\<close>

lemma update_absent: "k \<notin> fst ` set al \<Longrightarrow> AList.update k v al = al @ [(k, v)]"
  by (induction al) auto

lemma update_after_prefix:
  "k \<notin> fst ` set pre \<Longrightarrow> AList.update k v (pre @ al) = pre @ AList.update k v al"
  by (induction pre) auto

lemma map_of_rev_distinct: "distinct (map fst xs) \<Longrightarrow> map_of (rev xs) = map_of xs"
proof (induction xs)
  case Nil
  then show ?case by simp
next
  case (Cons kv xs)
  obtain k v where kv: "kv = (k, v)" by (cases kv)
  from Cons.prems have none: "map_of xs k = None"
    by (simp add: kv map_of_eq_None_iff)
  from Cons have ih: "map_of (rev xs) = map_of xs" by simp
  show ?case
    using none by (auto simp: kv ih map_add_def fun_eq_iff split: option.splits)
qed

text \<open>Looking a key up after \<open>update\<close>: the later items of the argument win.\<close>

lemma map_of_dict_update: "map_of (dict_update d other) = map_of d ++ map_of (rev other)"
proof (induction other arbitrary: d)
  case Nil
  then show ?case by (simp add: dict_update_def)
next
  case (Cons kv other)
  obtain k v where kv: "kv = (k, v)" by (cases kv)
  have "map_of (dict_update d (kv # other)) = map_of (dict_update (dict_setitem k v d) other)"
    by (simp add: dict_update_def kv)
  also have "\<dots> = map_of (dict_setitem k v d) ++ map_of (rev other)"
    by (rule Cons.IH)
  also have "\<dots> = map_of d ++ map_of (rev (kv # other))"
    by (simp add: dict_setitem_def update_conv' kv map_add_upd_left fun_eq_iff map_add_def
          split: option.splits)
  finally show ?case .
qed

text \<open>The keys of the updated dictionary start with the old keys, in their order.\<close>

lemma keys_dict_update_prefix: "\<exists>extra. keys (dict_update d other) = keys d @ extra"
proof (induction other arbitrary: d)
  case Nil
  then show ?case by (simp add: dict_update_def)
next
  case (Cons kv other)
  obtain k v where kv: "kv = (k, v)" by (cases kv)
  from Cons.IH [of "dict_setitem k v d"]
  obtain extra where
    "keys (dict_update (dict_setitem k v d) other) = keys (dict_setitem k v d) @ extra"
    by blast
  then show ?case
    by (auto simp: dict_update_def kv keys_def dict_setitem_def update_keys)
qed

lemma set_keys_dict_update:
  "set (keys (dict_update d other)) = set (keys d) \<union> set (keys other)"
proof (induction other arbitrary: d)
  case Nil
  then show ?case by (simp add: dict_update_def keys_def)
next
  case (Cons kv other)
  obtain k v where kv: "kv = (k, v)" by (cases kv)
  have "dict_update d (kv # other) = dict_update (dict_setitem k v d) other"
    by (simp add: dict_update_def kv)
  then show ?case using Cons.IH [of "dict_setitem k v d"]
    by (auto simp: kv keys_def dict_setitem_def update_keys)
qed

lemma distinct_dict_update: "distinct (keys d) \<Longrightarrow> distinct (keys (dict_update d other))"
proof (induction other arbitrary: d)
  case Nil
  then show ?case by (simp add: dict_update_def)
next
  case (Cons kv other)
  obtain k v where kv: "kv = (k, v)" by (cases kv)
  have "distinct (keys (dict_setitem k v d))"
    using Cons.prems by (simp add: keys_def dict_setitem_def distinct_update)
  from Cons.IH [OF this] show ?case by (simp add: dict_update_def kv)
qed

text \<open>
  Updating with items whose keys are the dictionary's own, in the same order, replaces
  the items one by one; updating with items under new keys appends them.
\<close>

lemma overwrite_in_place:
  "distinct (keys (pre @ d)) \<Longrightarrow> keys a = keys d \<Longrightarrow> dict_update (pre @ d) a = pre @ a"
proof (induction a arbitrary: pre d)
  case Nil
  then show ?case by (simp add: dict_update_def keys_def)
next
  case (Cons kv a)
  obtain k v where kv: "kv = (k, v)" by (cases kv)
  from Cons.prems(2) obtain v0 d' where d: "d = (k, v0) # d'" and ka: "keys a = keys d'"
    by (cases d) (auto simp: keys_def kv)
  have notin: "k \<notin> fst ` set pre"
    using Cons.prems(1) by (auto simp: keys_def d)
  have step: "dict_setitem k v (pre @ d) = (pre @ [(k, v)]) @ d'"
    by (simp add: dict_setitem_def update_after_prefix [OF notin] d)
  have dist: "distinct (keys ((pre @ [(k, v)]) @ d'))"
    using Cons.prems(1) by (simp add: keys_def d)
  have "dict_update (pre @ d) (kv # a) = dict_update ((pre @ [(k, v)]) @ d') a"
    by (simp add: dict_update_def kv step)
  also have "\<dots> = (pre @ [(k, v)]) @ a"
    by (rule Cons.IH [OF dist ka])
  finally show ?case by (simp add: kv)
qed

lemma append_new_keys:
  "distinct (keys (m @ b)) \<Longrightarrow> dict_update m b = m @ b"
proof (induction b arbitrary: m)
  case Nil
  then show ?case by (simp add: dict_update_def)
next
  case (Cons kv b)
  obtain k v where kv: "kv = (k, v)" by (cases kv)
  have notin: "k \<notin> fst ` set m"
    using Cons.prems by (auto simp: keys_def kv)
  have dist: "distinct (keys ((m @ [(k, v)]) @ b))"
    using Cons.prems by (simp add: keys_def kv)
  have "dict_update m (kv # b) = dict_update (m @ [(k, v)]) b"
    by (simp add: dict_update_def kv dict_setitem_def update_absent [OF notin])
  also have "\<dots> = (m @ [(k, v)]) @ b"
    by (rule Cons.IH [OF dist])
  finally show ?case by (simp add: kv)
qed

lemma dict_update_absorbs:
  assumes "distinct (keys m)" and "keys m = keys d @ extra"
  shows "dict_update d m = m"
proof -
  define a where "a = take (length d) m"
  define b where "b = drop (length d) m"
  have m: "m = a @ b" by (simp add: a_def b_def)
  have ka: "keys a = keys d"
    using assms(2) by (simp add: a_def keys_def take_map [symmetric])
  have dd: "distinct (keys ([] @ d))"
    using assms(1) ka by (simp add: m keys_def)
  have "dict_update d m = dict_update (dict_update d a) b"
    by (simp add: m dict_update_def)
  also have "dict_update d a = a"
    using overwrite_in_place [OF dd ka] by simp
  also have "dict_update a b = a @ b"
    using assms(1) by (intro append_new_keys) (simp add: m)
  finally show ?thesis by (simp add: m)
qed

subsection \<open>What \<open>_load_json\<close> returns\<close>

lemma load_json_object:
  "fs path = Loads (TopObject data) \<Longrightarrow>
   load_json fs path defaults h = (Inr (length h), h @ [merge (h ! defaults) data])"
  by (simp add: load_json_def dict_new_def update_in_place_def merge_def nth_append)

lemma load_json_caught:
  "fs path = Raises e \<Longrightarrow> e = FileNotFoundError \<or> e = JSONDecodeError \<Longrightarrow>
   load_json fs path defaults h = (Inr (length h), h @ [h ! defaults])"
  by (auto simp: load_json_def dict_new_def)

lemma load_json_propagates:
  "fs path = Raises e \<Longrightarrow> e \<noteq> FileNotFoundError \<Longrightarrow> e \<noteq> JSONDecodeError \<Longrightarrow>
   load_json fs path defaults h = (Inl e, h)"
  by (simp add: load_json_def)

text \<open>
  C2, as amended. \<open>load\<close> does not propagate a missing file or a JSON decoding error: on
  either it returns a new dictionary equal to \<open>defaults\<close> (a reference that was not in
  the heap, so not \<open>defaults\<close> itself, with every older object as it was). When the file
  parses to an object it returns, in the same way, the shallow merge of \<open>defaults\<close>
  with that object. Every other exception of reading or parsing reaches the caller.
\<close>

theorem load_json_caught_failures:
  assumes "defaults < length h"
  shows "(fs path = Raises FileNotFoundError \<or> fs path = Raises JSONDecodeError \<longrightarrow>
            load_json fs path defaults h = (Inr (length h), h @ [h ! defaults]))
       \<and> (fs path = Loads (TopObject data) \<longrightarrow>
            load_json fs path defaults h = (Inr (length h), h @ [merge (h ! defaults) data]))
       \<and> (fs path = Raises e \<and> e \<noteq> FileNotFoundError \<and> e \<noteq> JSONDecodeError \<longrightarrow>
            load_json fs path defaults h = (Inl e, h))
       \<and> length h \<noteq> defaults"
  using assms
  by (auto simp: load_json_object load_json_caught load_json_propagates)

theorem load_json_caught_failures_witness:
  "(0::nat) < length [DEFAULT_CHATBOT_CONFIG]
   \<and> load_json (\<lambda>p. Raises FileNotFoundError) CHATBOT_CONFIG_PATH 0 [DEFAULT_CHATBOT_CONFIG]
       = (Inr 1, [DEFAULT_CHATBOT_CONFIG, DEFAULT_CHATBOT_CONFIG])
   \<and> load_json (\<lambda>p. Raises JSONDecodeError) CHATBOT_CONFIG_PATH 0 [DEFAULT_CHATBOT_CONFIG]
       = (Inr 1, [DEFAULT_CHATBOT_CONFIG, DEFAULT_CHATBOT_CONFIG])
   \<and> load_json (\<lambda>p. Loads (TopObject [(''provider'', JStr ''openai'')])) CHATBOT_CONFIG_PATH 0
         [DEFAULT_CHATBOT_CONFIG]
       = (Inr 1, [DEFAULT_CHATBOT_CONFIG,
                  [(''provider'', JStr ''openai''), (''model'', JStr ''claude-sonnet-4-20250514''),
                   (''apiKey'', JStr [])]])
   \<and> load_json (\<lambda>p. Raises IsADirectoryError) CHATBOT_CONFIG_PATH 0 [DEFAULT_CHATBOT_CONFIG]
       = (Inl IsADirectoryError, [DEFAULT_CHATBOT_CONFIG])"
proof -
  have len: "(0::nat) < length [DEFAULT_CHATBOT_CONFIG]" by simp
  have m: "merge DEFAULT_CHATBOT_CONFIG [(''provider'', JStr ''openai'')]
     = [(''provider'', JStr ''openai''), (''model'', JStr ''claude-sonnet-4-20250514''),
        (''apiKey'', JStr [])]"
    by (simp add: merge_def dict_update_def dict_setitem_def DEFAULT_CHATBOT_CONFIG_def)
  show ?thesis
    using
      load_json_caught_failures [OF len, of "\<lambda>p. Raises FileNotFoundError"
        CHATBOT_CONFIG_PATH "[]" FileNotFoundError]
      load_json_caught_failures [OF len, of "\<lambda>p. Raises JSONDecodeError"
        CHATBOT_CONFIG_PATH "[]" JSONDecodeError]
      load_json_caught_failures [OF len,
        of "\<lambda>p. Loads (TopObject [(''provider'', JStr ''openai'')])"
        CHATBOT_CONFIG_PATH "[(''provider'', JStr ''openai'')]" KeyError]
      load_json_caught_failures [OF len, of "\<lambda>p. Raises IsADirectoryError"
        CHATBOT_CONFIG_PATH "[]" IsADirectoryError]
      m
    by simp
qed

text \<open>
  The claim as first stated fails where the file exists and cannot be opened:
  \<open>PermissionError\<close> is not among the two exceptions the \<open>except\<close> clause names, and
  \<open>load\<close> raises it instead of returning the defaults.
\<close>

theorem load_json_permission_counterexample:
  "load_json (\<lambda>p. Raises PermissionError) SERVICES_CONFIG_PATH 0 [DEFAULT_SERVICES_CONFIG]
     = (Inl PermissionError, [DEFAULT_SERVICES_CONFIG])"
  by (simp add: load_json_def)

text \<open>
  C5. For every object on disk, the dictionary \<open>load\<close> returns has every key of the
  defaults; a key of the file has the file's value, whether the defaults know it or not,
  and every other key has the default's value. Loading \<open>{}\<close> against the services
  defaults gives exactly the ten stated entries.
\<close>

theorem load_json_backfill:
  assumes "defaults < length h"
    and "fs path = Loads (TopObject data)"
    and "distinct (keys data)"
    and "load_json fs path defaults h = (res, h')"
  shows "res = Inr (length h)
    \<and> set (keys (h ! defaults)) \<subseteq> set (keys (h' ! length h))
    \<and> (\<forall>k v. map_of data k = Some v \<longrightarrow> map_of (h' ! length h) k = Some v)
    \<and> (\<forall>k. map_of data k = None \<longrightarrow> map_of (h' ! length h) k = map_of (h ! defaults) k)
    \<and> (data = [] \<and> h ! defaults = DEFAULT_SERVICES_CONFIG \<longrightarrow>
         h' ! length h =
           [(''ai'', JBool False), (''posture'', JBool False), (''appMenuLayout'', JStr ''grid''),
            (''mainMenuHoverActivate'', JBool False), (''taskbarHoverActivate'', JBool False),
            (''showDesktopHoverActivate'', JBool False), (''calendarHoverActivate'', JBool False),
            (''quickAccessHoverActivate'', JBool False), (''floatingPanel'', JBool True),
            (''panelPosition'', JStr ''top'')])"
proof -
  from assms(2,4) have res: "res = Inr (length h)" and h': "h' = h @ [merge (h ! defaults) data]"
    by (simp_all add: load_json_object)
  have cfg: "h' ! length h = dict_update (h ! defaults) data"
    by (simp add: h' merge_def)
  have rev: "map_of (rev data) = map_of data"
    using assms(3) by (simp add: keys_def map_of_rev_distinct)
  have look: "map_of (h' ! length h) = map_of (h ! defaults) ++ map_of data"
    by (simp add: cfg map_of_dict_update rev)
  have sub: "set (keys (h ! defaults)) \<subseteq> set (keys (h' ! length h))"
    by (simp add: cfg set_keys_dict_update)
  have empty: "data = [] \<Longrightarrow> h' ! length h = h ! defaults"
    by (simp add: cfg dict_update_def)
  show ?thesis
    using res sub empty by (auto simp: look map_add_def DEFAULT_SERVICES_CONFIG_def)
qed

theorem load_json_backfill_witness:
  "(0::nat) < length [DEFAULT_SERVICES_CONFIG]
   \<and> distinct (keys [])
   \<and> load_json (\<lambda>p. Loads (TopObject [])) SERVICES_CONFIG_PATH 0 [DEFAULT_SERVICES_CONFIG]
       = (Inr 1, [DEFAULT_SERVICES_CONFIG, DEFAULT_SERVICES_CONFIG])
   \<and> [DEFAULT_SERVICES_CONFIG, DEFAULT_SERVICES_CONFIG] ! 1 =
       [(''ai'', JBool False), (''posture'', JBool False), (''appMenuLayout'', JStr ''grid''),
        (''mainMenuHoverActivate'', JBool False), (''taskbarHoverActivate'', JBool False),
        (''showDesktopHoverActivate'', JBool False), (''calendarHoverActivate'', JBool False),
        (''quickAccessHoverActivate'', JBool False), (''floatingPanel'', JBool True),
        (''panelPosition'', JStr ''top'')]"
proof -
  have run: "load_json (\<lambda>p. Loads (TopObject [])) SERVICES_CONFIG_PATH 0 [DEFAULT_SERVICES_CONFIG]
       = (Inr 1, [DEFAULT_SERVICES_CONFIG, DEFAULT_SERVICES_CONFIG])"
    by (simp add: load_json_def dict_new_def update_in_place_def dict_update_def)
  have "(0::nat) < length [DEFAULT_SERVICES_CONFIG]" by simp
  moreover have "distinct (keys [])" by (simp add: keys_def)
  ultimately show ?thesis
    using run
      load_json_backfill [where defaults = 0 and h = "[DEFAULT_SERVICES_CONFIG]"
        and fs = "\<lambda>p. Loads (TopObject [])" and path = SERVICES_CONFIG_PATH and data = "[]"
        and res = "Inr 1" and h' = "[DEFAULT_SERVICES_CONFIG, DEFAULT_SERVICES_CONFIG]"]
    by simp
qed

text \<open>
  C9. Merging is idempotent: merging the defaults with the result of a merge gives that
  result again, item for item and in the same order, for any second argument. The
  defaults are a dictionary, so their keys are distinct.
\<close>

theorem merge_idempotent:
  "distinct (keys defaults) \<Longrightarrow>
   merge defaults (merge defaults partial) = merge defaults partial"
proof -
  assume d: "distinct (keys defaults)"
  obtain extra where "keys (dict_update defaults partial) = keys defaults @ extra"
    using keys_dict_update_prefix by blast
  with distinct_dict_update [OF d] show ?thesis
    unfolding merge_def by (rule dict_update_absorbs)
qed

theorem merge_idempotent_witness:
  "distinct (keys DEFAULT_CHATBOT_CONFIG)
   \<and> merge DEFAULT_CHATBOT_CONFIG
       (merge DEFAULT_CHATBOT_CONFIG [(''model'', JStr ''gpt-4o''), (''foo'', JStr ''bar'')])
     = [(''provider'', JStr ''anthropic''), (''model'', JStr ''gpt-4o''),
        (''apiKey'', JStr ''''), (''foo'', JStr ''bar'')]"
proof -
  have d: "distinct (keys DEFAULT_CHATBOT_CONFIG)"
    by (simp add: keys_def DEFAULT_CHATBOT_CONFIG_def)
  have m: "merge DEFAULT_CHATBOT_CONFIG [(''model'', JStr ''gpt-4o''), (''foo'', JStr ''bar'')]
     = [(''provider'', JStr ''anthropic''), (''model'', JStr ''gpt-4o''),
        (''apiKey'', JStr ''''), (''foo'', JStr ''bar'')]"
    by (simp add: merge_def dict_update_def dict_setitem_def DEFAULT_CHATBOT_CONFIG_def)
  from merge_idempotent [OF d, of "[(''model'', JStr ''gpt-4o''), (''foo'', JStr ''bar'')]"] d m
  show ?thesis by simp
qed


section \<open>Properties of the status checks\<close>

text \<open>
  C6, as amended. The liveness check strips the command's output and shows \<open>Running\<close>
  for \<open>active\<close>, \<open>Stopped\<close> for \<open>inactive\<close>, and any other text that is not empty as
  it is; output that is empty once stripped shows \<open>Unknown\<close>. An exception of the
  query, its timeout included, shows the error label. Only \<open>active\<close> marks the service
  as running.
\<close>

theorem check_service_status_classes:
  "service_label (check_service_status tr RunRaises w) = tr ''Error checking status''
   \<and> \<not> service_running (check_service_status tr RunRaises w)
   \<and> (strip out = ''active'' \<longrightarrow>
        service_label (check_service_status tr (Completed out) w) = tr ''Running''
        \<and> service_running (check_service_status tr (Completed out) w))
   \<and> (strip out = ''inactive'' \<longrightarrow>
        service_label (check_service_status tr (Completed out) w) = tr ''Stopped''
        \<and> \<not> service_running (check_service_status tr (Completed out) w))
   \<and> (strip out \<noteq> ''active'' \<and> strip out \<noteq> ''inactive'' \<and> strip out \<noteq> [] \<longrightarrow>
        service_label (check_service_status tr (Completed out) w) = strip out
        \<and> \<not> service_running (check_service_status tr (Completed out) w))
   \<and> (strip out = [] \<longrightarrow>
        service_label (check_service_status tr (Completed out) w) = tr ''Unknown''
        \<and> \<not> service_running (check_service_status tr (Completed out) w))"
  by (simp add: check_service_status_def Let_def)

theorem check_service_status_classes_witness:
  "service_label (check_service_status (\<lambda>s. s) (Completed (''active'' @ [CHR 0x0A])) fresh_window)
     = ''Running''
   \<and> service_running (check_service_status (\<lambda>s. s) (Completed (''active'' @ [CHR 0x0A])) fresh_window)
   \<and> service_label (check_service_status (\<lambda>s. s) (Completed (''inactive'' @ [CHR 0x0A])) fresh_window)
     = ''Stopped''
   \<and> service_label (check_service_status (\<lambda>s. s) (Completed (''failed'' @ [CHR 0x0A])) fresh_window)
     = ''failed''
   \<and> service_label (check_service_status (\<lambda>s. s) (Completed [CHR 0x0A]) fresh_window) = ''Unknown''
   \<and> service_label (check_service_status (\<lambda>s. s) RunRaises fresh_window) = ''Error checking status''"
  using check_service_status_classes [of "\<lambda>s. s" fresh_window "''active'' @ [CHR 0x0A]"]
    check_service_status_classes [of "\<lambda>s. s" fresh_window "''inactive'' @ [CHR 0x0A]"]
    check_service_status_classes [of "\<lambda>s. s" fresh_window "''failed'' @ [CHR 0x0A]"]
    check_service_status_classes [of "\<lambda>s. s" fresh_window "[CHR 0x0A]"]
  by (simp add: strip_def isspace_def)

text \<open>
  The claim as first stated fails on empty output (the command printing nothing to its
  standard output): the output is neither \<open>active\<close> nor \<open>inactive\<close>, and the label is
  \<open>Unknown\<close>, not the empty text the command printed.
\<close>

theorem check_service_status_empty_counterexample:
  "strip [] = []
   \<and> service_label (check_service_status (\<lambda>s. s) (Completed []) fresh_window) = ''Unknown''
   \<and> service_label (check_service_status (\<lambda>s. s) (Completed []) fresh_window) \<noteq> strip []"
  by (simp add: check_service_status_def strip_def)


section \<open>Properties of posture polling\<close>

text \<open>Evaluating a rounding: the floor of a quotient of two numerals is their division.\<close>

lemma floor_rat_numeral: "\<lfloor>numeral a / numeral b :: rat\<rfloor> = numeral a div numeral b"
  using floor_divide_of_int_eq [of "numeral a" "numeral b", where ?'a = rat] by simp

subsection \<open>The callback and the timer\<close>

lemma poll_posture_continues: "snd (poll_posture tr res w) = SOURCE_CONTINUE"
  by (simp add: poll_posture_def split: call_outcome.splits)

lemma poll_posture_frame:
  "sources (fst (poll_posture tr res w)) = sources w"
  "dbus (fst (poll_posture tr res w)) = dbus w"
  "posture_poll_id (fst (poll_posture tr res w)) = posture_poll_id w"
  by (simp_all add: poll_posture_def split: call_outcome.splits)

lemma timer_fires_attached:
  "sid \<in> set (sources w) \<Longrightarrow> timer_fires tr sid res w = fst (poll_posture tr res w)"
  using poll_posture_continues [of tr res w]
  by (cases "poll_posture tr res w") (simp add: timer_fires_def SOURCE_CONTINUE_def)

lemma timer_fires_detached:
  "sid \<notin> set (sources w) \<Longrightarrow> timer_fires tr sid res w = w"
  by (simp add: timer_fires_def)

lemma timer_fires_frame:
  "sources (timer_fires tr sid res w) = sources w"
  "dbus (timer_fires tr sid res w) = dbus w"
  "posture_poll_id (timer_fires tr sid res w) = posture_poll_id w"
  by (cases "sid \<in> set (sources w)";
      simp add: timer_fires_attached timer_fires_detached poll_posture_frame)+

lemma ticks_frame:
  "sources (ticks tr sid outs w) = sources w
   \<and> dbus (ticks tr sid outs w) = dbus w
   \<and> posture_poll_id (ticks tr sid outs w) = posture_poll_id w"
  by (induction outs arbitrary: w) (simp_all add: timer_fires_frame)

lemma ticks_append:
  "ticks tr sid (outs @ later) w = ticks tr sid later (ticks tr sid outs w)"
  by (induction outs arbitrary: w) simp_all

lemma ticks_detached: "sid \<notin> set (sources w) \<Longrightarrow> ticks tr sid outs w = w"
  by (induction outs arbitrary: w) (simp_all add: timer_fires_detached)

text \<open>
  C7. Take a timer that is attached, and any run of tick outcomes. The timer is still
  attached after the run, and the callback answers \<open>SOURCE_CONTINUE\<close> whatever the next
  outcome is, with or without a bus connection. With a bus connection, a tick whose call
  fails leaves the label at \<open>Service unavailable\<close> and the gauge at 0, whatever the
  earlier ticks showed, and a successful tick right after it shows the new reply.
  Closing the window detaches the timer, and no later tick changes anything.
\<close>

theorem posture_poll_failure_and_timer:
  assumes "sid \<in> set (sources w)"
  shows "sid \<in> set (sources (ticks tr sid outs w))
    \<and> snd (poll_posture tr res (ticks tr sid outs w)) = SOURCE_CONTINUE
    \<and> (dbus w \<longrightarrow>
         posture_status_label (ticks tr sid (outs @ [CallRaises]) w) = tr ''Service unavailable''
         \<and> posture_level_bar (ticks tr sid (outs @ [CallRaises]) w) = Finite 0)
    \<and> (dbus w \<longrightarrow>
         posture_status_label (ticks tr sid (outs @ [CallRaises, Reply status score]) w)
           = status @ '' ('' @ format_2f score @ '')'')
    \<and> (posture_poll_id w = Some sid \<and> sid \<noteq> 0 \<longrightarrow>
         sid \<notin> set (sources (on_close (ticks tr sid outs w)))
         \<and> ticks tr sid later (on_close (ticks tr sid outs w)) = on_close (ticks tr sid outs w))"
proof -
  let ?w = "ticks tr sid outs w"
  have fr: "sources ?w = sources w" "dbus ?w = dbus w" "posture_poll_id ?w = posture_poll_id w"
    using ticks_frame [of tr sid outs w] by simp_all
  have att: "sid \<in> set (sources ?w)" using assms by (simp add: fr)
  have fail: "ticks tr sid (outs @ [CallRaises]) w = fst (poll_posture tr CallRaises ?w)"
    by (simp add: ticks_append timer_fires_attached [OF att])
  have att2: "sid \<in> set (sources (fst (poll_posture tr CallRaises ?w)))"
    using att by (simp add: poll_posture_frame)
  have recov: "ticks tr sid (outs @ [CallRaises, Reply status score]) w
      = fst (poll_posture tr (Reply status score) (fst (poll_posture tr CallRaises ?w)))"
    by (simp add: ticks_append timer_fires_attached [OF att] timer_fires_attached [OF att2])
  have c1: "dbus w \<Longrightarrow>
         posture_status_label (ticks tr sid (outs @ [CallRaises]) w) = tr ''Service unavailable''
         \<and> posture_level_bar (ticks tr sid (outs @ [CallRaises]) w) = Finite 0"
    unfolding fail by (simp add: poll_posture_def fr)
  have c2: "dbus w \<Longrightarrow>
         posture_status_label (ticks tr sid (outs @ [CallRaises, Reply status score]) w)
           = status @ '' ('' @ format_2f score @ '')''"
    unfolding recov by (simp add: poll_posture_def fr)
  have c3: "posture_poll_id w = Some sid \<Longrightarrow> sid \<noteq> 0 \<Longrightarrow>
         sid \<notin> set (sources (on_close ?w))"
    by (simp add: on_close_def fr)
  then have c4: "posture_poll_id w = Some sid \<Longrightarrow> sid \<noteq> 0 \<Longrightarrow>
         ticks tr sid later (on_close ?w) = on_close ?w"
    by (simp add: ticks_detached)
  show ?thesis
    using att c1 c2 c3 c4 by (simp add: poll_posture_continues)
qed

theorem posture_poll_failure_and_timer_witness:
  "1 \<in> set (sources (start_posture_polling 1 fresh_window))
   \<and> posture_status_label
       (ticks (\<lambda>s. s) 1 [Reply ''good'' (Finite (9 / 10))] (start_posture_polling 1 fresh_window))
       = ''good (0.90)''
   \<and> posture_level_bar
       (ticks (\<lambda>s. s) 1 [Reply ''good'' (Finite (9 / 10))] (start_posture_polling 1 fresh_window))
       = Finite (9 / 10)
   \<and> posture_status_label
       (ticks (\<lambda>s. s) 1 ([Reply ''good'' (Finite (9 / 10))] @ [CallRaises])
          (start_posture_polling 1 fresh_window))
       = ''Service unavailable''
   \<and> posture_level_bar
       (ticks (\<lambda>s. s) 1 ([Reply ''good'' (Finite (9 / 10))] @ [CallRaises])
          (start_posture_polling 1 fresh_window))
       = Finite 0
   \<and> posture_status_label
       (ticks (\<lambda>s. s) 1 ([Reply ''good'' (Finite (9 / 10))] @ [CallRaises, Reply ''slouch'' (Finite (1 / 4))])
          (start_posture_polling 1 fresh_window))
       = ''slouch (0.25)''
   \<and> 1 \<in> set (sources (ticks (\<lambda>s. s) 1 [Reply ''good'' (Finite (9 / 10))]
                  (start_posture_polling 1 fresh_window)))
   \<and> 1 \<notin> set (sources (on_close (ticks (\<lambda>s. s) 1 [Reply ''good'' (Finite (9 / 10))]
                  (start_posture_polling 1 fresh_window))))"
proof -
  let ?w = "start_posture_polling 1 fresh_window"
  have a: "1 \<in> set (sources ?w)" and d: "dbus ?w" and p: "posture_poll_id ?w = Some 1"
    by (simp_all add: start_posture_polling_def fresh_window_def)
  have good: "ticks (\<lambda>s. s) 1 [Reply ''good'' (Finite (9 / 10))] ?w
      = ?w\<lparr>posture_status_label := ''good (0.90)'', posture_level_bar := Finite (9 / 10)\<rparr>"
    by (simp add: timer_fires_def poll_posture_def start_posture_polling_def fresh_window_def
          SOURCE_CONTINUE_def py_max_def py_min_def round_half_even_def Let_def
          floor_rat_numeral format_hundredths_def digit_char_def)
  have f: "format_2f (Finite (1 / 4)) = ''0.25''"
    by (simp add: round_half_even_def Let_def floor_rat_numeral format_hundredths_def digit_char_def)
  from posture_poll_failure_and_timer [OF a, of "\<lambda>s. s" "[Reply ''good'' (Finite (9 / 10))]"
      CallRaises "''slouch''" "Finite (1 / 4)" "[]"] a d p good f
  show ?thesis by simp
qed

subsection \<open>The gauge\<close>

text \<open>
  C8. On a successful poll the gauge is a finite value between 0 and 1: 1 for a score
  above 1, 0 for a score below 0, and the score's own value otherwise. The label shows
  the status and the score as received, to two decimals. The doubles nearest to 1.7 and
  -0.3 give the gauge 1.0 and 0.0 and the texts \<open>1.70\<close> and \<open>-0.30\<close>.
\<close>

theorem posture_gauge_clamped:
  assumes "dbus w" and "poll_posture tr (Reply status score) w = (w', again)"
  shows "posture_level_bar w' = Finite (float_value (posture_level_bar w'))
    \<and> 0 \<le> float_value (posture_level_bar w')
    \<and> float_value (posture_level_bar w') \<le> 1
    \<and> (float_lt (Finite 1) score \<longrightarrow> posture_level_bar w' = Finite 1)
    \<and> (float_lt score (Finite 0) \<longrightarrow> posture_level_bar w' = Finite 0)
    \<and> (\<not> float_lt (Finite 1) score \<and> \<not> float_lt score (Finite 0) \<and> score \<noteq> NaN \<longrightarrow>
         float_value (posture_level_bar w') = float_value score)
    \<and> posture_status_label w' = status @ '' ('' @ format_2f score @ '')''"
proof -
  from assms have bar: "posture_level_bar w' = py_max (Finite 0) (py_min (Finite 1) score)"
    and lab: "posture_status_label w' = status @ '' ('' @ format_2f score @ '')''"
    by (auto simp: poll_posture_def)
  show ?thesis
    unfolding bar lab by (cases score) (simp_all add: py_max_def py_min_def)
qed

theorem posture_gauge_clamped_witness:
  "dbus fresh_window
   \<and> posture_level_bar
       (fst (poll_posture (\<lambda>s. s) (Reply ''good'' (Finite (7656119366529843 / 4503599627370496)))
          fresh_window)) = Finite 1
   \<and> posture_status_label
       (fst (poll_posture (\<lambda>s. s) (Reply ''good'' (Finite (7656119366529843 / 4503599627370496)))
          fresh_window)) = ''good (1.70)''
   \<and> posture_level_bar
       (fst (poll_posture (\<lambda>s. s) (Reply ''bad'' (Finite (- 5404319552844595 / 18014398509481984)))
          fresh_window)) = Finite 0
   \<and> posture_status_label
       (fst (poll_posture (\<lambda>s. s) (Reply ''bad'' (Finite (- 5404319552844595 / 18014398509481984)))
          fresh_window)) = ''bad (-0.30)''"
proof -
  have d: "dbus fresh_window" by (simp add: fresh_window_def)
  have f1: "format_2f (Finite (7656119366529843 / 4503599627370496)) = ''1.70''"
    by (simp add: round_half_even_def Let_def floor_rat_numeral format_hundredths_def digit_char_def)
  have f2: "format_2f (Finite (- 5404319552844595 / 18014398509481984)) = ''-0.30''"
    by (simp add: round_half_even_def Let_def floor_rat_numeral format_hundredths_def digit_char_def)
  have l1: "float_lt (Finite 1) (Finite (7656119366529843 / 4503599627370496))" by simp
  have l2: "float_lt (Finite (- 5404319552844595 / 18014398509481984)) (Finite 0)" by simp
  from posture_gauge_clamped [OF d surjective_pairing, of "\<lambda>s. s" "''good''"
      "Finite (7656119366529843 / 4503599627370496)"]
    posture_gauge_clamped [OF d surjective_pairing, of "\<lambda>s. s" "''bad''"
      "Finite (- 5404319552844595 / 18014398509481984)"]
    d f1 f2 l1 l2
  show ?thesis by simp
qed



section \<open>Properties of the preferences controller\<close>

subsection \<open>Low-spec mode\<close>

lemma count_list_filter_neq: "count_list (filter (\<lambda>x. x \<noteq> a) xs) a = 0"
  by (induction xs) auto

lemma count_list_absent: "a \<notin> set xs \<Longrightarrow> count_list xs a = 0"
  by (induction xs) auto

lemma count_list_snoc: "count_list (xs @ [a]) a = Suc (count_list xs a)"
  by (induction xs) auto

lemma lowspec_extension_lists:
  "enabled_extensions (on_lowspec_changed a f e w) = enabled_extensions (toggle_tilingshell f e w)"
  "disabled_extensions (on_lowspec_changed a f e w) = disabled_extensions (toggle_tilingshell f e w)"
  by (simp_all add: on_lowspec_changed_def Let_def save_services_def save_json_def
        layout_row_set_selected_def on_layout_changed_def toggle_animations_def
        toggle_tilingshell_def)

lemma lowspec_layout:
  "dict_get (services (on_lowspec_changed a f e w)) ''appMenuLayout'' dflt
     = JStr (if e then ''list'' else ''grid'')"
  by (simp add: on_lowspec_changed_def Let_def save_services_def save_json_def
        layout_row_set_selected_def on_layout_changed_def toggle_animations_def
        toggle_tilingshell_def dict_get_def dict_setitem_def update_conv')

lemma toggle_tilingshell_lists:
  "enabled_extensions (toggle_tilingshell f e w) =
     (if f = NoFault \<or> f = FaultWriteDisabled
      then (if e then filter (\<lambda>x. x \<noteq> tiling_id) (enabled_extensions w)
            else if tiling_id \<in> set (enabled_extensions w) then enabled_extensions w
            else enabled_extensions w @ [tiling_id])
      else enabled_extensions w)"
  "disabled_extensions (toggle_tilingshell f e w) =
     (if f = NoFault
      then (if e then (if tiling_id \<in> set (disabled_extensions w) then disabled_extensions w
                       else disabled_extensions w @ [tiling_id])
            else filter (\<lambda>x. x \<noteq> tiling_id) (disabled_extensions w))
      else disabled_extensions w)"
  by (cases f; simp add: toggle_tilingshell_def Let_def)+

lemma toggle_tilingshell_on:
  "tiling_id \<in> set (disabled_extensions (toggle_tilingshell NoFault True w))"
  "tiling_id \<notin> set (enabled_extensions (toggle_tilingshell NoFault True w))"
  by (simp_all add: toggle_tilingshell_lists)

lemma toggle_tilingshell_off:
  "tiling_id \<in> set (enabled_extensions (toggle_tilingshell NoFault False w))"
  "tiling_id \<notin> set (disabled_extensions (toggle_tilingshell NoFault False w))"
  by (simp_all add: toggle_tilingshell_lists)

lemma toggle_tilingshell_counts:
  assumes "count_list (enabled_extensions w) tiling_id \<le> 1"
    and "count_list (disabled_extensions w) tiling_id \<le> 1"
  shows "count_list (enabled_extensions (toggle_tilingshell f e w)) tiling_id \<le> 1"
    and "count_list (disabled_extensions (toggle_tilingshell f e w)) tiling_id \<le> 1"
proof -
  show "count_list (enabled_extensions (toggle_tilingshell f e w)) tiling_id \<le> 1"
    using assms(1)
    by (simp add: toggle_tilingshell_lists count_list_filter_neq count_list_absent
          count_list_snoc)
  show "count_list (disabled_extensions (toggle_tilingshell f e w)) tiling_id \<le> 1"
    using assms(2)
    by (simp add: toggle_tilingshell_lists count_list_filter_neq count_list_absent
          count_list_snoc)
qed

lemma lowspec_toggles_counts:
  "count_list (enabled_extensions w) tiling_id \<le> 1 \<Longrightarrow>
   count_list (disabled_extensions w) tiling_id \<le> 1 \<Longrightarrow>
   count_list (enabled_extensions (lowspec_toggles ts w)) tiling_id \<le> 1
   \<and> count_list (disabled_extensions (lowspec_toggles ts w)) tiling_id \<le> 1"
proof (induction ts arbitrary: w)
  case Nil
  then show ?case by simp
next
  case (Cons t ts)
  obtain a f e where t: "t = (a, f, e)" by (cases t)
  have e: "count_list (enabled_extensions (on_lowspec_changed a f e w)) tiling_id \<le> 1"
    using toggle_tilingshell_counts(1) [OF Cons.prems] by (simp add: lowspec_extension_lists)
  have d: "count_list (disabled_extensions (on_lowspec_changed a f e w)) tiling_id \<le> 1"
    using toggle_tilingshell_counts(2) [OF Cons.prems] by (simp add: lowspec_extension_lists)
  show ?case
    unfolding t lowspec_toggles.simps by (rule Cons.IH [OF e d])
qed

text \<open>
  C4, as amended. Switching low-spec mode on sets the layout to \<open>list\<close> and, when the
  desktop settings can be read and written, leaves the tiling extension's identifier in
  the disabled list and out of the enabled list; switching it off sets the layout to
  \<open>grid\<close> and, under the same condition, leaves the identifier in the enabled list and
  out of the disabled list. If neither list holds the identifier more than once at the
  start, neither does after any number of switches, whatever fails during them.
\<close>

theorem lowspec_toggle_symmetry:
  "dict_get (services (on_lowspec_changed a f True w)) ''appMenuLayout'' dflt = JStr ''list''
   \<and> tiling_id \<in> set (disabled_extensions (on_lowspec_changed a NoFault True w))
   \<and> tiling_id \<notin> set (enabled_extensions (on_lowspec_changed a NoFault True w))
   \<and> dict_get (services (on_lowspec_changed a f False w)) ''appMenuLayout'' dflt = JStr ''grid''
   \<and> tiling_id \<in> set (enabled_extensions (on_lowspec_changed a NoFault False w))
   \<and> tiling_id \<notin> set (disabled_extensions (on_lowspec_changed a NoFault False w))
   \<and> (count_list (enabled_extensions w) tiling_id \<le> 1
        \<and> count_list (disabled_extensions w) tiling_id \<le> 1 \<longrightarrow>
      count_list (enabled_extensions (lowspec_toggles ts w)) tiling_id \<le> 1
        \<and> count_list (disabled_extensions (lowspec_toggles ts w)) tiling_id \<le> 1)"
  using lowspec_toggles_counts [of w ts]
  by (simp add: lowspec_layout lowspec_extension_lists toggle_tilingshell_on
        toggle_tilingshell_off)

theorem lowspec_toggle_symmetry_witness:
  "count_list (enabled_extensions fresh_window) tiling_id \<le> 1
   \<and> count_list (disabled_extensions fresh_window) tiling_id \<le> 1
   \<and> dict_get (services fresh_window) ''appMenuLayout'' (JStr ''grid'') = JStr ''grid''
   \<and> dict_get (services fresh_window) ''lowspecEnabled'' (JBool False) = JBool False
   \<and> dict_get (services (on_lowspec_changed False NoFault True fresh_window)) ''appMenuLayout''
        (JStr ''grid'') = JStr ''list''
   \<and> enabled_extensions (on_lowspec_changed False NoFault True fresh_window) = []
   \<and> disabled_extensions (on_lowspec_changed False NoFault True fresh_window) = [tiling_id]
   \<and> dict_get (services (on_lowspec_changed False NoFault False
          (on_lowspec_changed False NoFault True fresh_window))) ''appMenuLayout''
        (JStr ''grid'') = JStr ''grid''
   \<and> enabled_extensions (on_lowspec_changed False NoFault False
          (on_lowspec_changed False NoFault True fresh_window)) = [tiling_id]
   \<and> disabled_extensions (on_lowspec_changed False NoFault False
          (on_lowspec_changed False NoFault True fresh_window)) = []
   \<and> count_list (enabled_extensions (lowspec_toggles
          [(False, NoFault, True), (False, NoFault, False), (False, NoFault, True),
           (False, NoFault, False)] fresh_window)) tiling_id \<le> 1
   \<and> count_list (disabled_extensions (lowspec_toggles
          [(False, NoFault, True), (False, NoFault, False), (False, NoFault, True),
           (False, NoFault, False)] fresh_window)) tiling_id \<le> 1"
proof -
  have start: "count_list (enabled_extensions fresh_window) tiling_id \<le> 1"
      "count_list (disabled_extensions fresh_window) tiling_id \<le> 1"
      "dict_get (services fresh_window) ''appMenuLayout'' (JStr ''grid'') = JStr ''grid''"
      "dict_get (services fresh_window) ''lowspecEnabled'' (JBool False) = JBool False"
    by (simp_all add: fresh_window_def dict_get_def DEFAULT_SERVICES_CONFIG_def)
  have on: "enabled_extensions (on_lowspec_changed False NoFault True fresh_window) = []"
      "disabled_extensions (on_lowspec_changed False NoFault True fresh_window) = [tiling_id]"
    by (simp_all add: lowspec_extension_lists toggle_tilingshell_lists fresh_window_def)
  have off: "enabled_extensions (on_lowspec_changed False NoFault False
          (on_lowspec_changed False NoFault True fresh_window)) = [tiling_id]"
      "disabled_extensions (on_lowspec_changed False NoFault False
          (on_lowspec_changed False NoFault True fresh_window)) = []"
    by (simp_all add: lowspec_extension_lists toggle_tilingshell_lists fresh_window_def)
  from lowspec_toggle_symmetry [of False NoFault fresh_window "JStr ''grid''"
      "[(False, NoFault, True), (False, NoFault, False), (False, NoFault, True),
        (False, NoFault, False)]"]
    lowspec_toggle_symmetry [of False NoFault "on_lowspec_changed False NoFault True fresh_window"
      "JStr ''grid''" "[]"]
    start on off
  show ?thesis by simp
qed

text \<open>
  The claim as first stated fails in two places. A disabled list that already holds the
  identifier twice still holds it twice after switching on: the identifier is added only
  when absent, and nothing removes the copies. And when the settings cannot be opened the
  lists stay as they were, so the identifier is still enabled after switching on.
\<close>

theorem lowspec_toggle_counterexample:
  "dict_get (services (fresh_window\<lparr>disabled_extensions := [tiling_id, tiling_id]\<rparr>))
      ''appMenuLayout'' (JStr ''grid'') = JStr ''grid''
   \<and> dict_get (services (fresh_window\<lparr>disabled_extensions := [tiling_id, tiling_id]\<rparr>))
      ''lowspecEnabled'' (JBool False) = JBool False
   \<and> disabled_extensions (on_lowspec_changed False NoFault True
        (fresh_window\<lparr>disabled_extensions := [tiling_id, tiling_id]\<rparr>))
      = [tiling_id, tiling_id]
   \<and> enabled_extensions (on_lowspec_changed False FaultOpen True fresh_window) = [tiling_id]
   \<and> disabled_extensions (on_lowspec_changed False FaultOpen True fresh_window) = []"
  by (simp add: lowspec_extension_lists toggle_tilingshell_lists fresh_window_def dict_get_def
        DEFAULT_SERVICES_CONFIG_def)

subsection \<open>Provider and model\<close>









subsection \<open>Selections out of range\<close>

lemma provider_models_total:
  "\<exists>models. provider_models (current_provider_key w) = Inr models"
  by (cases "provider_row w = 0"; cases "provider_row w = 1")
     (auto simp: provider_models_def current_provider_key_def PROVIDERS_def Let_def)

text \<open>
  C10. When the model row reports a position outside the current provider's model list,
  the model handler returns the window as it was: the chatbot dictionary and the log of
  saves are unchanged. The handler never fails on a missing provider, and a provider
  position out of range resolves to \<open>anthropic\<close>.
\<close>

theorem out_of_range_selection:
  "(provider_models (current_provider_key w) = Inr models
      \<and> (model_row w < 0 \<or> int (length models) \<le> model_row w)
      \<longrightarrow> on_model_changed w = Inr w)
   \<and> on_model_changed w \<noteq> Inl KeyError
   \<and> (provider_row w < 0 \<or> int (length PROVIDERS) \<le> provider_row w
      \<longrightarrow> current_provider_key w = ''anthropic'')"
proof -
  obtain ms where ms: "provider_models (current_provider_key w) = Inr ms"
    using provider_models_total by blast
  have a: "provider_models (current_provider_key w) = Inr models
      \<Longrightarrow> model_row w < 0 \<or> int (length models) \<le> model_row w
      \<Longrightarrow> on_model_changed w = Inr w"
    by (auto simp: on_model_changed_def Let_def)
  have b: "on_model_changed w \<noteq> Inl KeyError"
    by (simp add: on_model_changed_def ms Let_def)
  have c: "provider_row w < 0 \<or> int (length PROVIDERS) \<le> provider_row w
      \<Longrightarrow> current_provider_key w = ''anthropic''"
    by (auto simp: current_provider_key_def Let_def)
  from a b c show ?thesis by blast
qed

theorem out_of_range_selection_witness:
  "provider_models (current_provider_key (fresh_window\<lparr>model_row := GTK_INVALID_LIST_POSITION\<rparr>))
     = Inr [''claude-sonnet-4-20250514'', ''claude-opus-4-20250514'', ''claude-3-5-haiku-20241022'']
   \<and> int (length [''claude-sonnet-4-20250514'', ''claude-opus-4-20250514'',
                   ''claude-3-5-haiku-20241022''])
       \<le> model_row (fresh_window\<lparr>model_row := GTK_INVALID_LIST_POSITION\<rparr>)
   \<and> on_model_changed (fresh_window\<lparr>model_row := GTK_INVALID_LIST_POSITION\<rparr>)
       = Inr (fresh_window\<lparr>model_row := GTK_INVALID_LIST_POSITION\<rparr>)
   \<and> int (length PROVIDERS) \<le> provider_row (fresh_window\<lparr>provider_row := GTK_INVALID_LIST_POSITION\<rparr>)
   \<and> current_provider_key (fresh_window\<lparr>provider_row := GTK_INVALID_LIST_POSITION\<rparr>) = ''anthropic''"
proof -
  have pm: "provider_models (current_provider_key (fresh_window\<lparr>model_row := GTK_INVALID_LIST_POSITION\<rparr>))
     = Inr [''claude-sonnet-4-20250514'', ''claude-opus-4-20250514'', ''claude-3-5-haiku-20241022'']"
    by (simp add: provider_models_def current_provider_key_def PROVIDERS_def fresh_window_def)
  have r: "int (length [''claude-sonnet-4-20250514'', ''claude-opus-4-20250514'',
                   ''claude-3-5-haiku-20241022''])
       \<le> model_row (fresh_window\<lparr>model_row := GTK_INVALID_LIST_POSITION\<rparr>)"
    by (simp add: GTK_INVALID_LIST_POSITION_def)
  have q: "int (length PROVIDERS) \<le> provider_row (fresh_window\<lparr>provider_row := GTK_INVALID_LIST_POSITION\<rparr>)"
    by (simp add: GTK_INVALID_LIST_POSITION_def PROVIDERS_def)
  from out_of_range_selection [of "fresh_window\<lparr>model_row := GTK_INVALID_LIST_POSITION\<rparr>"
      "[''claude-sonnet-4-20250514'', ''claude-opus-4-20250514'', ''claude-3-5-haiku-20241022'']"]
    out_of_range_selection [of "fresh_window\<lparr>provider_row := GTK_INVALID_LIST_POSITION\<rparr>" "[]"]
    pm r q
  show ?thesis by simp
qed

end
